theory Spec2Isabelle
  imports Complex_Main "HOL-Library.Sublist"
begin

section \<open>Values of the JavaScript program\<close>

text \<open>
  A value thrown or used to reject a promise: an error object with its \<open>name\<close> and its
  \<open>message\<close>.
\<close>

datatype js_error = JsError (name: string) (message: string)

text \<open>
  What \<open>response.json()\<close> decodes to. \<open>JNull\<close> is JavaScript's \<open>null\<close>; a number is
  the real value of the decoded double; an object is the list of its own properties, the
  first binding of a key being the property.
\<close>

datatype jsval =
    JNull
  | JBool bool
  | JNum real
  | JStr string
  | JArr "jsval list"
  | JObj "(string \<times> jsval) list"

text \<open>
  The message of the TypeError raised when a property of \<open>null\<close> is read. The wording is
  the engine's (here Hermes'); the program only logs it or shows it in an alert.
\<close>

definition null_property_message :: "string \<Rightarrow> string" where
  "null_property_message k =
     ''Cannot read property '' @ [CHR 0x27] @ k @ [CHR 0x27] @ '' of null''"

text \<open>
  Reading \<open>v.k\<close> on a decoded value, for a property name \<open>k\<close> that no built-in prototype
  defines and that is neither an index nor \<open>length\<close> (the program reads \<open>status\<close> and
  \<open>detail\<close> only). \<open>None\<close> is \<open>undefined\<close>; reading a property of \<open>null\<close> throws.
\<close>

fun get_field :: "jsval \<Rightarrow> string \<Rightarrow> js_error + jsval option" where
  "get_field JNull k = Inl (JsError ''TypeError'' (null_property_message k))"
| "get_field (JObj kvs) k = Inr (map_of kvs k)"
| "get_field v k = Inr None"

text \<open>Truthiness of a decoded value, as \<open>||\<close> tests it.\<close>

fun truthy :: "jsval \<Rightarrow> bool" where
  "truthy JNull = False"
| "truthy (JBool b) = b"
| "truthy (JNum n) = (n \<noteq> 0)"
| "truthy (JStr s) = (s \<noteq> [])"
| "truthy (JArr xs) = True"
| "truthy (JObj kvs) = True"

fun join_comma :: "string list \<Rightarrow> string" where
  "join_comma [] = []"
| "join_comma [s] = s"
| "join_comma (s # t # ts) = s @ '','' @ join_comma (t # ts)"

text \<open>
  The message of the TypeError raised when an object has no primitive value. The wording
  is the engine's.
\<close>

definition no_primitive_message :: string where
  "no_primitive_message = ''Cannot convert object to primitive value''"

text \<open>The texts of the elements of an array, or the first error among them.\<close>

fun collect :: "(js_error + string) list \<Rightarrow> js_error + string list" where
  "collect [] = Inr []"
| "collect (Inl err # rs) = Inl err"
| "collect (Inr x # rs) = (case collect rs of Inl err \<Rightarrow> Inl err | Inr xs \<Rightarrow> Inr (x # xs))"

text \<open>
  ToString of a decoded value, which \<open>new Error(v)\<close> applies to its argument. The text of
  a number is the platform's (\<open>Number.prototype.toString\<close>), taken as the parameter \<open>f\<close>.
  An array joins the texts of its elements, \<open>null\<close> counting as empty. An object is
  \<open>[object Object]\<close>, unless it has an own property \<open>toString\<close>: a decoded value is never
  a function, so the object has no primitive value then and ToString throws.
\<close>

fun to_string :: "(real \<Rightarrow> string) \<Rightarrow> jsval \<Rightarrow> js_error + string" where
  "to_string f JNull = Inr ''null''"
| "to_string f (JBool b) = Inr (if b then ''true'' else ''false'')"
| "to_string f (JNum n) = Inr (f n)"
| "to_string f (JStr s) = Inr s"
| "to_string f (JArr xs) =
     (case collect (map (\<lambda>x. if x = JNull then Inr [] else to_string f x) xs) of
        Inl err \<Rightarrow> Inl err
      | Inr texts \<Rightarrow> Inr (join_comma texts))"
| "to_string f (JObj kvs) =
     (if map_of kvs ''toString'' = None then Inr ''[object Object]''
      else Inl (JsError ''TypeError'' no_primitive_message))"

text \<open>The decimal text of a non-negative integer, as a template literal prints it.\<close>

definition digit :: "nat \<Rightarrow> char" where
  "digit d = ''0123456789'' ! d"

function dec_nat :: "nat \<Rightarrow> string" where
  "dec_nat n = (if n < 10 then [digit n] else dec_nat (n div 10) @ [digit (n mod 10)])"
  by pat_completeness auto
termination
  by (relation "measure id") auto

declare dec_nat.simps [simp del]

section \<open>The platform\<close>

text \<open>The asset the image picker returns (\<open>ImageRef\<close> of the specification).\<close>

record image =
  uri :: string
  width :: "nat option"
  height :: "nat option"
  mimeType :: "string option"

text \<open>
  The picker's result: \<open>canceled\<close> and the selected \<open>assets\<close>, \<open>None\<close> being \<open>null\<close>
  (what the platform gives when the user cancels).
\<close>

record picker_result =
  canceled :: bool
  assets :: "image list option"

text \<open>The text \<open>JSON.stringify\<close> makes of a value, kept as the value it encodes.\<close>

datatype payload = JSON_stringify jsval

text \<open>
  What \<open>fetch\<close> is called with: the URL and the \<open>method\<close> (here \<open>http_method\<close>),
  \<open>headers\<close> and \<open>body\<close> of its second argument.
\<close>

record request =
  url :: string
  http_method :: string
  headers :: "(string \<times> string) list"
  body :: "payload option"

text \<open>
  A response: its numeric \<open>status\<close> and the outcome of \<open>response.json()\<close>, which rejects
  when the body is not JSON.
\<close>

record response =
  status :: nat
  json :: "js_error + jsval"

text \<open>\<open>response.ok\<close> as the Fetch standard defines it: the status is in 200..299.\<close>

definition ok :: "response \<Rightarrow> bool" where
  "ok r = (200 \<le> status r \<and> status r \<le> 299)"

text \<open>
  The world one handler run meets: the outcome of every platform call, a rejection being
  \<open>Inl\<close>.
\<close>

record env =
  EXPO_PUBLIC_API_URL :: "string option"
  Number_toString :: "real \<Rightarrow> string"
  requestMediaLibraryPermissionsAsync :: "js_error + string"
  launchImageLibraryAsync :: "js_error + picker_result"
  requestCameraPermissionsAsync :: "js_error + string"
  launchCameraAsync :: "js_error + picker_result"
  readAsStringAsync :: "string \<Rightarrow> js_error + string"
  fetch :: "request \<Rightarrow> js_error + response"
  deleteAsync :: "string \<Rightarrow> js_error + unit"

section \<open>Observable events\<close>

text \<open>A call of one of the service's functions, with its argument.\<close>

datatype svc_call =
    PickImage
  | CaptureImage
  | ConvertToBase64 string
  | AnalyzeImage string
  | DeleteImage string
  | CheckHealth

text \<open>
  What a run does, in order: entering a service function (\<open>Invoke\<close>), the platform calls,
  \<open>console.error\<close>, \<open>Alert.alert\<close> (title and message), \<open>setTimeout\<close> (the call the
  callback makes, and the delay in ms) and the calls of the four React state setters.
\<close>

datatype event =
    Invoke svc_call
  | RequestMediaLibraryPermissions
  | LaunchImageLibrary
  | RequestCameraPermissions
  | LaunchCamera
  | ReadAsString string
  | Fetch request
  | DeleteAsync string
  | ConsoleError string js_error
  | AlertShown string string
  | SetTimeout svc_call nat
  | SetSelectedImage "image option"
  | SetIsAnalyzing bool
  | SetAnalysisResult jsval
  | SetApiAvailable bool

text \<open>
  An asynchronous computation run to its end: how it settles (\<open>Inl\<close> is a rejection) and
  the events on the way.
\<close>

type_synonym 'a io = "(js_error + 'a) \<times> event list"

definition io_return :: "'a \<Rightarrow> 'a io" where
  "io_return v = (Inr v, [])"

definition io_throw :: "js_error \<Rightarrow> 'a io" where
  "io_throw err = (Inl err, [])"

definition emit :: "event \<Rightarrow> unit io" where
  "emit ev = (Inr (), [ev])"

text \<open>Awaiting a platform call: the event of the call, and its outcome.\<close>

definition await :: "event \<Rightarrow> js_error + 'a \<Rightarrow> 'a io" where
  "await ev outcome = (outcome, [ev])"

definition settle :: "js_error + 'a \<Rightarrow> 'a io" where
  "settle outcome = (outcome, [])"

definition io_bind :: "'a io \<Rightarrow> ('a \<Rightarrow> 'b io) \<Rightarrow> 'b io" where
  "io_bind m k =
     (case m of
        (Inl err, t) \<Rightarrow> (Inl err, t)
      | (Inr v, t) \<Rightarrow> (case k v of (r, t') \<Rightarrow> (r, t @ t')))"

definition try_catch :: "'a io \<Rightarrow> (js_error \<Rightarrow> 'a io) \<Rightarrow> 'a io" where
  "try_catch m handler =
     (case m of
        (Inl err, t) \<Rightarrow> (case handler err of (r, t') \<Rightarrow> (r, t @ t'))
      | (Inr v, t) \<Rightarrow> (Inr v, t))"

text \<open>\<open>try { m } finally { fin }\<close>: \<open>fin\<close> runs however \<open>m\<close> settles.\<close>

definition try_finally :: "'a io \<Rightarrow> unit io \<Rightarrow> 'a io" where
  "try_finally m fin =
     (case m of (r, t) \<Rightarrow>
        (case fin of
           (Inl err, t') \<Rightarrow> (Inl err, t @ t')
         | (Inr _, t') \<Rightarrow> (r, t @ t')))"

section \<open>deepfakeService\<close>

definition API_BASE_URL :: "env \<Rightarrow> string" where
  "API_BASE_URL e =
     (case EXPO_PUBLIC_API_URL e of
        None \<Rightarrow> ''http://localhost:8001''
      | Some u \<Rightarrow> if u = [] then ''http://localhost:8001'' else u)"

definition pickImage :: "env \<Rightarrow> image option io" where
  "pickImage e =
     io_bind (emit (Invoke PickImage)) (\<lambda>_.
     try_catch
       (io_bind (await RequestMediaLibraryPermissions (requestMediaLibraryPermissionsAsync e))
          (\<lambda>status.
         if status \<noteq> ''granted'' then
           io_throw (JsError ''Error''
             ''Sorry, we need camera roll permissions to analyze images.'')
         else
           io_bind (await LaunchImageLibrary (launchImageLibraryAsync e)) (\<lambda>result.
             if \<not> canceled result then
               (case assets result of
                  None \<Rightarrow> io_throw (JsError ''TypeError'' (null_property_message ''0''))
                | Some [] \<Rightarrow> io_return None
                | Some (a # _) \<Rightarrow> io_return (Some a))
             else io_return None)))
       (\<lambda>error.
          io_bind (emit (ConsoleError ''Error picking image:'' error)) (\<lambda>_.
          io_throw error)))"

definition captureImage :: "env \<Rightarrow> image option io" where
  "captureImage e =
     io_bind (emit (Invoke CaptureImage)) (\<lambda>_.
     try_catch
       (io_bind (await RequestCameraPermissions (requestCameraPermissionsAsync e))
          (\<lambda>status.
         if status \<noteq> ''granted'' then
           io_throw (JsError ''Error''
             ''Sorry, we need camera permissions to capture images.'')
         else
           io_bind (await LaunchCamera (launchCameraAsync e)) (\<lambda>result.
             if \<not> canceled result then
               (case assets result of
                  None \<Rightarrow> io_throw (JsError ''TypeError'' (null_property_message ''0''))
                | Some [] \<Rightarrow> io_return None
                | Some (a # _) \<Rightarrow> io_return (Some a))
             else io_return None)))
       (\<lambda>error.
          io_bind (emit (ConsoleError ''Error capturing image:'' error)) (\<lambda>_.
          io_throw error)))"

definition convertToBase64 :: "env \<Rightarrow> string \<Rightarrow> string io" where
  "convertToBase64 e u =
     io_bind (emit (Invoke (ConvertToBase64 u))) (\<lambda>_.
     try_catch
       (io_bind (await (ReadAsString u) (readAsStringAsync e u)) (\<lambda>base64.
          io_return base64))
       (\<lambda>error.
          io_bind (emit (ConsoleError ''Error converting to base64:'' error)) (\<lambda>_.
          io_throw error)))"

text \<open>The request \<open>analyzeImage\<close> sends for the base64 text of the image.\<close>

definition analyze_request :: "env \<Rightarrow> string \<Rightarrow> request" where
  "analyze_request e base64Image =
     \<lparr> url = API_BASE_URL e @ ''/api/analyze-deepfake'',
       http_method = ''POST'',
       headers = [(''Content-Type'', ''application/json'')],
       body = Some (JSON_stringify
         (JObj [(''image_base64'', JStr base64Image), (''mime_type'', JStr ''image/jpeg'')])) \<rparr>"

text \<open>
  The argument of \<open>new Error\<close> on a response that is not ok, as the text \<open>new Error\<close>
  makes of it; making the text can throw.
\<close>

definition failure_message :: "env \<Rightarrow> jsval option \<Rightarrow> nat \<Rightarrow> js_error + string" where
  "failure_message e detail st =
     (case detail of
        None \<Rightarrow> Inr (''Analysis failed: '' @ dec_nat st)
      | Some v \<Rightarrow>
          if truthy v then to_string (Number_toString e) v
          else Inr (''Analysis failed: '' @ dec_nat st))"

definition analyzeImage :: "env \<Rightarrow> string \<Rightarrow> jsval io" where
  "analyzeImage e imageUri =
     io_bind (emit (Invoke (AnalyzeImage imageUri))) (\<lambda>_.
     try_catch
       (io_bind (convertToBase64 e imageUri) (\<lambda>base64Image.
        io_bind (await (Fetch (analyze_request e base64Image))
                   (fetch e (analyze_request e base64Image))) (\<lambda>response.
          if \<not> ok response then
            io_bind (try_catch (settle (json response)) (\<lambda>_. io_return (JObj [])))
              (\<lambda>errorData.
            io_bind (settle (get_field errorData ''detail'')) (\<lambda>detail.
            io_bind (settle (failure_message e detail (status response))) (\<lambda>text.
              io_throw (JsError ''Error'' text))))
          else
            io_bind (settle (json response)) (\<lambda>result.
              io_return result))))
       (\<lambda>error.
          io_bind (emit (ConsoleError ''Error analyzing image:'' error)) (\<lambda>_.
          io_throw error)))"

definition deleteImage :: "env \<Rightarrow> string \<Rightarrow> unit io" where
  "deleteImage e u =
     io_bind (emit (Invoke (DeleteImage u))) (\<lambda>_.
     try_catch
       (if u \<noteq> [] \<and> prefix ''file://'' u then
          await (DeleteAsync u) (deleteAsync e u)
        else io_return ())
       (\<lambda>error. emit (ConsoleError ''Error deleting image:'' error)))"

definition health_request :: "env \<Rightarrow> request" where
  "health_request e =
     \<lparr> url = API_BASE_URL e @ ''/api/health'',
       http_method = ''GET'',
       headers = [],
       body = None \<rparr>"

definition checkHealth :: "env \<Rightarrow> bool io" where
  "checkHealth e =
     io_bind (emit (Invoke CheckHealth)) (\<lambda>_.
     try_catch
       (io_bind (await (Fetch (health_request e)) (fetch e (health_request e))) (\<lambda>response.
          if \<not> ok response then io_return False
          else
            io_bind (settle (json response)) (\<lambda>data.
            io_bind (settle (get_field data ''status'')) (\<lambda>v.
              io_return (v = Some (JStr ''healthy''))))))
       (\<lambda>error.
          io_bind (emit (ConsoleError ''Health check failed:'' error)) (\<lambda>_.
          io_return False)))"

section \<open>The analyzer screen\<close>

text \<open>The four \<open>useState\<close> cells of \<open>DeepfakeAnalyzerScreen\<close>; \<open>JNull\<close> is \<open>null\<close>.\<close>

record state =
  selectedImage :: "image option"
  isAnalyzing :: bool
  analysisResult :: jsval
  apiAvailable :: bool

definition initial_state :: state where
  "initial_state =
     \<lparr> selectedImage = None, isAnalyzing = False, analysisResult = JNull,
       apiAvailable = True \<rparr>"

text \<open>
  A handler reads the state of the render it was created in and calls setters; the state
  after its run is that state with the setter calls applied in order.
\<close>

fun apply_event :: "state \<Rightarrow> event \<Rightarrow> state" where
  "apply_event s (SetSelectedImage v) = s\<lparr>selectedImage := v\<rparr>"
| "apply_event s (SetIsAnalyzing b) = s\<lparr>isAnalyzing := b\<rparr>"
| "apply_event s (SetAnalysisResult v) = s\<lparr>analysisResult := v\<rparr>"
| "apply_event s (SetApiAvailable b) = s\<lparr>apiAvailable := b\<rparr>"
| "apply_event s ev = s"

definition after :: "state \<Rightarrow> event list \<Rightarrow> state" where
  "after s t = foldl apply_event s t"

text \<open>\<open>error.message || fallback\<close>\<close>

definition message_or :: "js_error \<Rightarrow> string \<Rightarrow> string" where
  "message_or error fallback = (if message error \<noteq> [] then message error else fallback)"

text \<open>
  A call whose promise is not awaited: its outcome is dropped, and its events are listed
  where the call is made (a \<open>console.error\<close> of its \<open>catch\<close> may in fact come after the
  statements that follow the call).
\<close>

definition detached :: "'a io \<Rightarrow> unit io" where
  "detached m = (Inr (), snd m)"

definition handlePickImage :: "env \<Rightarrow> unit io" where
  "handlePickImage e =
     try_catch
       (io_bind (pickImage e) (\<lambda>image.
          case image of
            Some img \<Rightarrow>
              io_bind (emit (SetSelectedImage (Some img))) (\<lambda>_.
              emit (SetAnalysisResult JNull))
          | None \<Rightarrow> io_return ()))
       (\<lambda>error. emit (AlertShown ''Error'' (message_or error ''Failed to pick image'')))"

definition handleCaptureImage :: "env \<Rightarrow> unit io" where
  "handleCaptureImage e =
     try_catch
       (io_bind (captureImage e) (\<lambda>image.
          case image of
            Some img \<Rightarrow>
              io_bind (emit (SetSelectedImage (Some img))) (\<lambda>_.
              emit (SetAnalysisResult JNull))
          | None \<Rightarrow> io_return ()))
       (\<lambda>error. emit (AlertShown ''Error'' (message_or error ''Failed to capture image'')))"

definition service_unavailable :: event where
  "service_unavailable =
     AlertShown ''Service Unavailable''
       ''The deepfake detection service is currently unavailable. Please try again later.''"

definition handleAnalyze :: "env \<Rightarrow> state \<Rightarrow> unit io" where
  "handleAnalyze e s =
     (case selectedImage s of
        None \<Rightarrow> emit (AlertShown ''No Image'' ''Please select or capture an image first'')
      | Some img \<Rightarrow>
          io_bind (emit (SetIsAnalyzing True)) (\<lambda>_.
          io_bind (emit (SetAnalysisResult JNull)) (\<lambda>_.
          try_finally
            (try_catch
               (io_bind (checkHealth e) (\<lambda>isHealthy.
                io_bind (emit (SetApiAvailable isHealthy)) (\<lambda>_.
                  if \<not> isHealthy then
                    io_bind (emit service_unavailable) (\<lambda>_.
                    emit (SetIsAnalyzing False))
                  else
                    io_bind (analyzeImage e (uri img)) (\<lambda>result.
                    io_bind (emit (SetAnalysisResult result)) (\<lambda>_.
                    emit (SetTimeout (DeleteImage (uri img)) 5000))))))
               (\<lambda>error.
                  io_bind (emit (ConsoleError ''Analysis error:'' error)) (\<lambda>_.
                  emit (AlertShown ''Analysis Failed''
                    (message_or error ''Failed to analyze image. Please try again.'')))))
            (emit (SetIsAnalyzing False)))))"

text \<open>
  \<open>handleClear\<close> shows an alert with the buttons Cancel and Clear; \<open>pressed\<close> is the text
  of the button the user presses, \<open>None\<close> when the alert is dismissed.
\<close>

definition handleClear :: "env \<Rightarrow> state \<Rightarrow> string option \<Rightarrow> unit io" where
  "handleClear e s pressed =
     io_bind (emit (AlertShown ''Clear Analysis''
                ''Are you sure you want to clear the current analysis?'')) (\<lambda>_.
       if pressed = Some ''Clear'' then
         io_bind
           (case selectedImage s of
              Some img \<Rightarrow> detached (deleteImage e (uri img))
            | None \<Rightarrow> io_return ()) (\<lambda>_.
         io_bind (emit (SetSelectedImage None)) (\<lambda>_.
         emit (SetAnalysisResult JNull)))
       else io_return ())"

section \<open>Reading a run\<close>

text \<open>The service calls of a run, the timers it sets, the files it asks the platform to
  delete, the requests it sends and the setter calls it makes, each in order.\<close>

fun invoked :: "event \<Rightarrow> svc_call list" where
  "invoked (Invoke c) = [c]"
| "invoked ev = []"

definition invocations :: "event list \<Rightarrow> svc_call list" where
  "invocations t = concat (map invoked t)"

fun timer :: "event \<Rightarrow> (svc_call \<times> nat) list" where
  "timer (SetTimeout c ms) = [(c, ms)]"
| "timer ev = []"

definition timeouts :: "event list \<Rightarrow> (svc_call \<times> nat) list" where
  "timeouts t = concat (map timer t)"

fun deletion :: "event \<Rightarrow> string list" where
  "deletion (DeleteAsync u) = [u]"
| "deletion ev = []"

definition deletions :: "event list \<Rightarrow> string list" where
  "deletions t = concat (map deletion t)"

fun sent :: "event \<Rightarrow> request list" where
  "sent (Fetch r) = [r]"
| "sent ev = []"

definition requests :: "event list \<Rightarrow> request list" where
  "requests t = concat (map sent t)"

fun is_setter :: "event \<Rightarrow> bool" where
  "is_setter (SetSelectedImage v) = True"
| "is_setter (SetIsAnalyzing b) = True"
| "is_setter (SetAnalysisResult v) = True"
| "is_setter (SetApiAvailable b) = True"
| "is_setter ev = False"

definition setter_calls :: "event list \<Rightarrow> event list" where
  "setter_calls t = filter is_setter t"

section \<open>Sequences of user actions\<close>

text \<open>
  One user action: the button pressed and the world its handler meets; for Clear, also the
  button the user presses in the alert.
\<close>

datatype ui_action =
    PressPick env
  | PressCapture env
  | PressAnalyze env
  | PressClear env "string option"

fun handler :: "ui_action \<Rightarrow> state \<Rightarrow> unit io" where
  "handler (PressPick e) s = handlePickImage e"
| "handler (PressCapture e) s = handleCaptureImage e"
| "handler (PressAnalyze e) s = handleAnalyze e s"
| "handler (PressClear e pressed) s = handleClear e s pressed"

text \<open>
  The sequential schedule: handlers run one after the other, each to its end, so that no
  handler starts while another is suspended. \<open>step\<close> gives the state and the events so
  far after one more action run that way.
\<close>

definition step :: "state \<times> event list \<Rightarrow> ui_action \<Rightarrow> state \<times> event list" where
  "step c a = (after (fst c) (snd (handler a (fst c))), snd c @ snd (handler a (fst c)))"

definition run :: "ui_action list \<Rightarrow> state \<times> event list" where
  "run acts = foldl step (initial_state, []) acts"

text \<open>
  Which image the stored result is the analysis of, read off the events: a call of
  \<open>analyzeImage\<close> makes its URI the one under analysis, and \<open>setAnalysisResult\<close> with a
  value other than \<open>null\<close> stores a result of the URI under analysis. The pair is the URI
  under analysis and the URI of the stored result.
\<close>

fun track :: "string option \<times> string option \<Rightarrow> event \<Rightarrow> string option \<times> string option" where
  "track (cur, src) (Invoke (AnalyzeImage u)) = (Some u, src)"
| "track (cur, src) (SetAnalysisResult v) = (cur, if v = JNull then None else cur)"
| "track (cur, src) ev = (cur, src)"

definition result_source :: "event list \<Rightarrow> string option" where
  "result_source t = snd (foldl track (None, None) t)"

section \<open>Interleaved handlers\<close>

text \<open>
  Where a handler is suspended: after a platform call it awaits, and after the alert of
  \<open>handleClear\<close>, whose callback runs when the user presses a button of the alert.
  \<open>deleteAsync\<close> is not among them, since no handler awaits \<open>deleteImage\<close>. (A handler
  is also suspended at \<open>response.json()\<close>, which has no event; these points are left
  out, so every schedule below is one of the program.)
\<close>

fun suspends :: "event \<Rightarrow> bool" where
  "suspends RequestMediaLibraryPermissions = True"
| "suspends LaunchImageLibrary = True"
| "suspends RequestCameraPermissions = True"
| "suspends LaunchCamera = True"
| "suspends (ReadAsString u) = True"
| "suspends (Fetch r) = True"
| "suspends (AlertShown title text) = (title = ''Clear Analysis'')"
| "suspends ev = False"

text \<open>The events up to the next suspension, and the events after it.\<close>

fun segment :: "event list \<Rightarrow> event list \<times> event list" where
  "segment [] = ([], [])"
| "segment (ev # t) =
     (if suspends ev then ([ev], t)
      else (case segment t of (now, later) \<Rightarrow> (ev # now, later)))"

text \<open>
  The buttons the screen offers: Upload and Take Photo are rendered while no image is
  selected; Analyze and Clear are rendered while an image is selected, and disabled while
  \<open>isAnalyzing\<close>. The buttons of the alert are not gated.
\<close>

fun enabled :: "ui_action \<Rightarrow> state \<Rightarrow> bool" where
  "enabled (PressPick e) s = (selectedImage s = None)"
| "enabled (PressCapture e) s = (selectedImage s = None)"
| "enabled (PressAnalyze e) s = (selectedImage s \<noteq> None \<and> \<not> isAnalyzing s)"
| "enabled (PressClear e pressed) s = (selectedImage s \<noteq> None \<and> \<not> isAnalyzing s)"

text \<open>
  The screen with handlers in flight: the state, what each handler started so far has
  still to do, and the events so far.
\<close>

record screen =
  shown :: state
  tasks :: "event list list"
  happened :: "event list"

text \<open>
  One move: the user presses a button the screen offers, and its handler, created in the
  state shown, runs to its first suspension; or the handler started as number \<open>i\<close> goes
  on to its next suspension. A press of a button the screen does not offer does nothing.
  Nothing else keeps the user from a button: the alert of \<open>handleClear\<close> is taken not to
  cover the buttons behind it before it has the focus.
\<close>

datatype move = Press ui_action | Resume nat

fun play :: "screen \<Rightarrow> move \<Rightarrow> screen" where
  "play c (Press a) =
     (if enabled a (shown c) then
        (case segment (snd (handler a (shown c))) of
           (now, later) \<Rightarrow>
             \<lparr> shown = after (shown c) now, tasks = tasks c @ [later],
               happened = happened c @ now \<rparr>)
      else c)"
| "play c (Resume i) =
     (if i < length (tasks c) then
        (case segment (tasks c ! i) of
           (now, later) \<Rightarrow>
             \<lparr> shown = after (shown c) now, tasks = (tasks c)[i := later],
               happened = happened c @ now \<rparr>)
      else c)"

definition interleaved :: "move list \<Rightarrow> screen" where
  "interleaved ms = foldl play \<lparr> shown = initial_state, tasks = [], happened = [] \<rparr> ms"

section \<open>Worlds used as examples\<close>

definition network_down :: js_error where
  "network_down = JsError ''TypeError'' ''Network request failed''"

definition not_json :: js_error where
  "not_json = JsError ''SyntaxError'' ''JSON Parse error: Unexpected token''"

definition photo :: image where
  "photo = \<lparr> uri = ''file:///tmp/x.jpg'', width = Some 400, height = Some 300,
             mimeType = Some ''image/png'' \<rparr>"

text \<open>
  A world where permissions are granted, both pickers return \<open>photo\<close>, the file reads as
  \<open>QUJD\<close>, deletion succeeds and the network is down.
\<close>

definition offline :: env where
  "offline =
     \<lparr> EXPO_PUBLIC_API_URL = None,
       Number_toString = (\<lambda>n. ''0''),
       requestMediaLibraryPermissionsAsync = Inr ''granted'',
       launchImageLibraryAsync = Inr \<lparr> canceled = False, assets = Some [photo] \<rparr>,
       requestCameraPermissionsAsync = Inr ''granted'',
       launchCameraAsync = Inr \<lparr> canceled = False, assets = Some [photo] \<rparr>,
       readAsStringAsync = (\<lambda>u. Inr ''QUJD''),
       fetch = (\<lambda>r. Inl network_down),
       deleteAsync = (\<lambda>u. Inr ()) \<rparr>"

text \<open>
  A world like \<open>offline\<close> whose server answers the health check with \<open>health\<close> and the
  analysis with \<open>analysis\<close>.
\<close>

definition online :: "response \<Rightarrow> response \<Rightarrow> env" where
  "online health analysis =
     offline\<lparr> fetch := (\<lambda>r. if http_method r = ''GET'' then Inr health else Inr analysis) \<rparr>"

definition healthy :: response where
  "healthy = \<lparr> status = 200, json = Inr (JObj [(''status'', JStr ''healthy'')]) \<rparr>"

definition verdict :: jsval where
  "verdict = JObj [(''verification_result'', JStr ''Likely authentic''),
                   (''confidence_score'', JNum 97.5),
                   (''detailed_findings'', JArr [JStr ''No blending artefacts''])]"

definition analysed :: response where
  "analysed = \<lparr> status = 200, json = Inr verdict \<rparr>"

definition bad_image :: response where
  "bad_image = \<lparr> status = 422, json = Inr (JObj [(''detail'', JStr ''bad image'')]) \<rparr>"

definition empty_detail :: response where
  "empty_detail = \<lparr> status = 422, json = Inr (JObj [(''detail'', JStr [])]) \<rparr>"

definition null_body :: response where
  "null_body = \<lparr> status = 500, json = Inr JNull \<rparr>"

text \<open>A second image, and a world like \<open>offline\<close> whose picker returns it.\<close>

definition portrait :: image where
  "portrait = \<lparr> uri = ''file:///tmp/y.jpg'', width = Some 300, height = Some 400,
                mimeType = Some ''image/jpeg'' \<rparr>"

definition second_pick :: env where
  "second_pick =
     offline\<lparr> launchImageLibraryAsync := Inr \<lparr> canceled = False, assets = Some [portrait] \<rparr> \<rparr>"

text \<open>
  A world whose files and server tell the two images apart: \<open>photo\<close> reads as \<open>QUJD\<close> and
  is judged authentic, every other file reads as \<open>RUZH\<close> and is judged manipulated.
\<close>

definition forged :: jsval where
  "forged = JObj [(''verification_result'', JStr ''Likely manipulated''),
                  (''confidence_score'', JNum 88)]"

definition two_files :: env where
  "two_files =
     offline\<lparr> readAsStringAsync :=
                (\<lambda>u. if u = ''file:///tmp/x.jpg'' then Inr ''QUJD'' else Inr ''RUZH''),
              fetch :=
                (\<lambda>r. if http_method r = ''GET'' then Inr healthy
                     else if body r = Some (JSON_stringify
                            (JObj [(''image_base64'', JStr ''QUJD''),
                                   (''mime_type'', JStr ''image/jpeg'')]))
                     then Inr \<lparr> status = 200, json = Inr verdict \<rparr>
                     else Inr \<lparr> status = 200, json = Inr forged \<rparr>) \<rparr>"

text \<open>
  The user picks \<open>photo\<close>, presses Clear (the alert shows), presses Analyze, which runs up
  to its analysis request, presses Clear in the alert, picks \<open>portrait\<close>, and then the
  response to the analysis request arrives.
\<close>

definition late_result :: "move list" where
  "late_result =
     [Press (PressPick offline), Resume 0, Resume 0,
      Press (PressClear offline (Some ''Clear'')),
      Press (PressAnalyze two_files), Resume 2, Resume 2,
      Resume 1,
      Press (PressPick second_pick), Resume 3, Resume 3,
      Resume 2]"

text \<open>A world where the user cancels the picker and the camera.\<close>

definition cancelled :: env where
  "cancelled =
     offline\<lparr> launchImageLibraryAsync := Inr \<lparr> canceled = True, assets = None \<rparr>,
              launchCameraAsync := Inr \<lparr> canceled = True, assets = None \<rparr> \<rparr>"

text \<open>A screen that shows \<open>photo\<close> and its verdict.\<close>

definition showing :: state where
  "showing = \<lparr> selectedImage = Some photo, isAnalyzing = False, analysisResult = verdict,
               apiAvailable = True \<rparr>"

section \<open>Auxiliary notions\<close>

text \<open>An event that calls no setter, sets no timer and is not a call of \<open>analyzeImage\<close>.\<close>

fun quiet :: "event \<Rightarrow> bool" where
  "quiet (Invoke (AnalyzeImage u)) = False"
| "quiet (SetTimeout c ms) = False"
| "quiet (SetSelectedImage v) = False"
| "quiet (SetIsAnalyzing b) = False"
| "quiet (SetAnalysisResult v) = False"
| "quiet (SetApiAvailable b) = False"
| "quiet ev = True"

text \<open>No result is stored, or the stored result is of the selected image.\<close>

definition linked :: "state \<Rightarrow> string option \<times> string option \<Rightarrow> bool" where
  "linked s m =
     (if analysisResult s = JNull then True
      else (case selectedImage s of
              None \<Rightarrow> False
            | Some img \<Rightarrow> snd m = Some (uri img)))"

section \<open>Facts about the events of each function\<close>

lemmas io_defs = io_return_def io_throw_def emit_def await_def settle_def io_bind_def
  try_catch_def try_finally_def detached_def

lemmas obs_defs = invocations_def timeouts_def deletions_def requests_def setter_calls_def

lemma dec_nat_500: "dec_nat 500 = ''500''"
  by (simp add: dec_nat.simps digit_def)

lemma dec_nat_422: "dec_nat 422 = ''422''"
  by (simp add: dec_nat.simps digit_def)

lemma invocations_append: "invocations (t @ t') = invocations t @ invocations t'"
  by (simp add: invocations_def)

lemma invocations_Cons: "invocations (ev # t) = invoked ev @ invocations t"
  by (simp add: invocations_def)

lemma invocations_Nil: "invocations [] = []"
  by (simp add: invocations_def)

lemma timeouts_append: "timeouts (t @ t') = timeouts t @ timeouts t'"
  by (simp add: timeouts_def)

lemma timeouts_Cons: "timeouts (ev # t) = timer ev @ timeouts t"
  by (simp add: timeouts_def)

lemma timeouts_Nil: "timeouts [] = []"
  by (simp add: timeouts_def)

lemma setter_calls_append: "setter_calls (t @ t') = setter_calls t @ setter_calls t'"
  by (simp add: setter_calls_def)

lemma after_append: "after s (t @ t') = after (after s t) t'"
  by (simp add: after_def)

lemma after_Nil: "after s [] = s"
  by (simp add: after_def)

lemma after_Cons: "after s (ev # t) = after (apply_event s ev) t"
  by (simp add: after_def)

lemma apply_quiet: "quiet ev \<Longrightarrow> apply_event s ev = s"
  by (cases ev rule: quiet.cases) simp_all

lemma after_quiet: "list_all quiet t \<Longrightarrow> after s t = s"
  by (induction t arbitrary: s) (simp_all add: after_Nil after_Cons apply_quiet)

lemma quiet_no_setter: "quiet ev \<Longrightarrow> \<not> is_setter ev"
  by (cases ev rule: quiet.cases) simp_all

lemma quiet_no_timer: "quiet ev \<Longrightarrow> timer ev = []"
  by (cases ev rule: quiet.cases) simp_all

lemma setter_calls_quiet: "list_all quiet t \<Longrightarrow> setter_calls t = []"
  by (induction t) (simp_all add: setter_calls_def quiet_no_setter)

lemma timeouts_quiet: "list_all quiet t \<Longrightarrow> timeouts t = []"
  by (induction t) (simp_all add: timeouts_def quiet_no_timer)

lemma track_quiet: "quiet ev \<Longrightarrow> track m ev = m"
  by (cases "(m, ev)" rule: track.cases) auto

lemma quiet_not_result: "list_all quiet t \<Longrightarrow> SetAnalysisResult v \<notin> set t"
  by (induction t) auto

lemma foldl_track_quiet: "list_all quiet t \<Longrightarrow> foldl track m t = m"
  by (induction t arbitrary: m) (simp_all add: track_quiet)

lemma checkHealth_returns: "\<exists>b. fst (checkHealth e) = Inr b"
  by (auto simp: checkHealth_def io_defs split: sum.splits prod.splits if_splits)

lemma checkHealth_first: "\<exists>t. snd (checkHealth e) = Invoke CheckHealth # t"
  by (auto simp: checkHealth_def io_defs split: sum.splits prod.splits if_splits)

lemma checkHealth_events:
  "invocations (snd (checkHealth e)) = [CheckHealth]"
  "list_all quiet (snd (checkHealth e))"
  by (auto simp: checkHealth_def io_defs obs_defs
      split: sum.splits prod.splits if_splits)

lemma analyzeImage_events:
  "\<exists>t. snd (analyzeImage e u) = Invoke (AnalyzeImage u) # t \<and> list_all quiet t
       \<and> invocations t = [ConvertToBase64 u]"
  by (auto simp: analyzeImage_def convertToBase64_def io_defs obs_defs
      split: sum.splits prod.splits if_splits)

lemma pickImage_events: "list_all quiet (snd (pickImage e))"
  by (auto simp: pickImage_def io_defs
      split: sum.splits prod.splits if_splits list.splits option.splits)

lemma captureImage_events: "list_all quiet (snd (captureImage e))"
  by (auto simp: captureImage_def io_defs
      split: sum.splits prod.splits if_splits list.splits option.splits)

lemma deleteImage_events:
  "list_all quiet (snd (deleteImage e u))"
  "invocations (snd (deleteImage e u)) = [DeleteImage u]"
  "fst (deleteImage e u) = Inr ()"
  by (auto simp: deleteImage_def io_defs obs_defs
      split: sum.splits prod.splits if_splits)

text \<open>
  On a response that is not ok whose body is not JSON, or is JSON other than \<open>null\<close>
  without a \<open>detail\<close> property, \<open>analyzeImage\<close> fails with the generic message, which ends
  with the status.
\<close>

lemma analyzeImage_generic_message:
  "readAsStringAsync e imageUri = Inr base64Image \<Longrightarrow>
   fetch e (analyze_request e base64Image) = Inr response \<Longrightarrow>
   \<not> ok response \<Longrightarrow>
   json response = Inl err
     \<or> (json response = Inr errorData \<and> get_field errorData ''detail'' = Inr None) \<Longrightarrow>
   fst (analyzeImage e imageUri) =
     Inl (JsError ''Error'' (''Analysis failed: '' @ dec_nat (status response)))"
  by (auto simp add: analyzeImage_def convertToBase64_def failure_message_def io_defs)

subsection \<open>The events of each handler, path by path\<close>

lemma handlePickImage_events:
  "snd (handlePickImage e) = snd (pickImage e) @
     (case fst (pickImage e) of
        Inl err \<Rightarrow> [AlertShown ''Error'' (message_or err ''Failed to pick image'')]
      | Inr None \<Rightarrow> []
      | Inr (Some img) \<Rightarrow> [SetSelectedImage (Some img), SetAnalysisResult JNull])"
  by (cases "pickImage e")
     (auto simp: handlePickImage_def io_defs split: sum.splits option.splits)

lemma handleCaptureImage_events:
  "snd (handleCaptureImage e) = snd (captureImage e) @
     (case fst (captureImage e) of
        Inl err \<Rightarrow> [AlertShown ''Error'' (message_or err ''Failed to capture image'')]
      | Inr None \<Rightarrow> []
      | Inr (Some img) \<Rightarrow> [SetSelectedImage (Some img), SetAnalysisResult JNull])"
  by (cases "captureImage e")
     (auto simp: handleCaptureImage_def io_defs split: sum.splits option.splits)

lemma handleAnalyze_events:
  "selectedImage s = Some img \<Longrightarrow>
   snd (handleAnalyze e s) =
     [SetIsAnalyzing True, SetAnalysisResult JNull] @ snd (checkHealth e) @
     (case fst (checkHealth e) of
        Inl err \<Rightarrow> [ConsoleError ''Analysis error:'' err,
                    AlertShown ''Analysis Failed''
                      (message_or err ''Failed to analyze image. Please try again.'')]
      | Inr False \<Rightarrow> [SetApiAvailable False, service_unavailable, SetIsAnalyzing False]
      | Inr True \<Rightarrow> SetApiAvailable True # snd (analyzeImage e (uri img)) @
          (case fst (analyzeImage e (uri img)) of
             Inl err \<Rightarrow> [ConsoleError ''Analysis error:'' err,
                         AlertShown ''Analysis Failed''
                           (message_or err ''Failed to analyze image. Please try again.'')]
           | Inr result \<Rightarrow> [SetAnalysisResult result,
                            SetTimeout (DeleteImage (uri img)) 5000]))
     @ [SetIsAnalyzing False]"
  by (cases "checkHealth e"; cases "analyzeImage e (uri img)")
     (auto simp: handleAnalyze_def io_defs split: sum.splits bool.splits)

lemma handleAnalyze_returns: "fst (handleAnalyze e s) = Inr ()"
  by (cases "checkHealth e"; cases "analyzeImage e (uri (the (selectedImage s)))")
     (auto simp: handleAnalyze_def io_defs split: sum.splits bool.splits option.splits)

lemma handleClear_events:
  "snd (handleClear e s pressed) =
     AlertShown ''Clear Analysis'' ''Are you sure you want to clear the current analysis?'' #
     (if pressed = Some ''Clear'' then
        (case selectedImage s of Some img \<Rightarrow> snd (deleteImage e (uri img)) | None \<Rightarrow> [])
        @ [SetSelectedImage None, SetAnalysisResult JNull]
      else [])"
  by (auto simp: handleClear_def io_defs split: sum.splits option.splits prod.splits)

subsection \<open>The state after each handler\<close>

lemma after_handlePickImage:
  "fst (pickImage e) = Inr (Some img) \<Longrightarrow>
   after s (snd (handlePickImage e)) = s\<lparr>selectedImage := Some img, analysisResult := JNull\<rparr>"
  by (simp add: handlePickImage_events after_append after_quiet pickImage_events after_Cons
      after_Nil)

lemma after_handleAnalyze_selected:
  "selectedImage (after s (snd (handleAnalyze e s))) = selectedImage s"
proof (cases "selectedImage s")
  case None
  then show ?thesis
    by (simp add: handleAnalyze_def io_defs after_Cons after_Nil)
next
  case (Some img)
  obtain t where t: "snd (analyzeImage e (uri img)) = Invoke (AnalyzeImage (uri img)) # t"
    "list_all quiet t"
    using analyzeImage_events by blast
  show ?thesis
    using checkHealth_events(2) [of e] t(2)
    by (simp add: handleAnalyze_events [OF Some] after_append after_Cons after_Nil after_quiet
        t(1) service_unavailable_def split: sum.splits bool.splits)
qed

lemma after_handleAnalyze_success:
  assumes "selectedImage s = Some img" and "fst (checkHealth e) = Inr True"
    and "fst (analyzeImage e (uri img)) = Inr result"
  shows "after s (snd (handleAnalyze e s)) =
     s\<lparr>isAnalyzing := False, analysisResult := result, apiAvailable := True\<rparr>"
proof -
  obtain t where t: "snd (analyzeImage e (uri img)) = Invoke (AnalyzeImage (uri img)) # t"
    "list_all quiet t"
    using analyzeImage_events by blast
  show ?thesis
    using t(2) checkHealth_events(2) [of e]
    by (simp add: handleAnalyze_events [OF assms(1)] assms(2,3) t(1) after_append after_Cons
        after_Nil after_quiet)
qed

lemma after_handleClear:
  "after s (snd (handleClear e s (Some ''Clear''))) =
     s\<lparr>selectedImage := None, analysisResult := JNull\<rparr>"
  by (simp add: handleClear_events after_append after_Cons after_Nil after_quiet
      deleteImage_events split: option.splits)

lemma run_snoc: "run (acts @ [a]) = step (run acts) a"
  by (simp add: run_def)

subsection \<open>The stored result stays linked to the selected image\<close>

lemma linked_pick:
  "linked s m \<Longrightarrow>
   linked (after s (snd (handlePickImage e))) (foldl track m (snd (handlePickImage e)))"
proof (cases "fst (pickImage e)")
  case (Inl err)
  assume "linked s m"
  then show ?thesis
    by (cases m) (simp add: handlePickImage_events Inl after_append after_Cons after_Nil
        after_quiet foldl_track_quiet pickImage_events)
next
  case (Inr image)
  assume "linked s m"
  then show ?thesis
    by (cases m; cases image)
       (simp_all add: handlePickImage_events Inr after_append after_Cons after_Nil
        after_quiet foldl_track_quiet pickImage_events linked_def)
qed

lemma linked_capture:
  "linked s m \<Longrightarrow>
   linked (after s (snd (handleCaptureImage e))) (foldl track m (snd (handleCaptureImage e)))"
proof (cases "fst (captureImage e)")
  case (Inl err)
  assume "linked s m"
  then show ?thesis
    by (cases m) (simp add: handleCaptureImage_events Inl after_append after_Cons after_Nil
        after_quiet foldl_track_quiet captureImage_events)
next
  case (Inr image)
  assume "linked s m"
  then show ?thesis
    by (cases m; cases image)
       (simp_all add: handleCaptureImage_events Inr after_append after_Cons after_Nil
        after_quiet foldl_track_quiet captureImage_events linked_def)
qed

lemma linked_analyze:
  assumes "linked s m"
  shows "linked (after s (snd (handleAnalyze e s))) (foldl track m (snd (handleAnalyze e s)))"
proof (cases "selectedImage s")
  case None
  with assms show ?thesis
    by (cases m) (simp add: handleAnalyze_def io_defs after_Cons after_Nil)
next
  case (Some img)
  obtain t where t: "snd (analyzeImage e (uri img)) = Invoke (AnalyzeImage (uri img)) # t"
    "list_all quiet t"
    using analyzeImage_events by blast
  obtain b where b: "fst (checkHealth e) = Inr b"
    using checkHealth_returns by blast
  have h: "list_all quiet (snd (checkHealth e))"
    by (rule checkHealth_events)
  obtain cur src where m: "m = (cur, src)"
    by (cases m)
  show ?thesis
    by (cases b; cases "fst (analyzeImage e (uri img))")
       (simp_all add: handleAnalyze_events [OF Some] b m t h after_append after_Cons after_Nil
          after_quiet foldl_track_quiet service_unavailable_def linked_def Some)
qed

lemma linked_clear:
  assumes "linked s m"
  shows "linked (after s (snd (handleClear e s pressed)))
           (foldl track m (snd (handleClear e s pressed)))"
proof (cases "pressed = Some ''Clear''")
  case True
  then show ?thesis
    using after_handleClear [of s e] by (simp add: linked_def)
next
  case False
  with assms show ?thesis
    by (cases m) (simp add: handleClear_events after_Cons after_Nil)
qed

lemma linked_step:
  "linked s m \<Longrightarrow>
   linked (after s (snd (handler a s))) (foldl track m (snd (handler a s)))"
  by (cases a) (simp_all add: linked_pick linked_capture linked_analyze linked_clear)

lemma linked_run: "linked (fst (run acts)) (foldl track (None, None) (snd (run acts)))"
proof (induction acts rule: rev_induct)
  case Nil
  show ?case
    by (simp add: run_def linked_def initial_state_def)
next
  case (snoc a acts)
  then show ?case
    by (simp add: run_snoc step_def linked_step)
qed

subsection \<open>The example worlds\<close>

lemma checkHealth_online: "fst (checkHealth (online healthy r)) = Inr True"
  by (simp add: checkHealth_def io_defs online_def offline_def healthy_def health_request_def
      ok_def)

lemma checkHealth_offline: "fst (checkHealth offline) = Inr False"
  by (simp add: checkHealth_def io_defs offline_def)

lemma analyzeImage_analysed:
  "fst (analyzeImage (online healthy analysed) ''file:///tmp/x.jpg'') = Inr verdict"
  by (simp add: analyzeImage_def convertToBase64_def io_defs online_def offline_def
      analyze_request_def analysed_def ok_def)

lemma analyzeImage_bad_image:
  "fst (analyzeImage (online healthy bad_image) ''file:///tmp/x.jpg'') =
     Inl (JsError ''Error'' ''bad image'')"
  by (simp add: analyzeImage_def convertToBase64_def io_defs online_def offline_def
      analyze_request_def bad_image_def ok_def failure_message_def)

lemma pickImage_offline: "fst (pickImage offline) = Inr (Some photo)"
  by (simp add: pickImage_def io_defs offline_def)

lemma captureImage_offline: "fst (captureImage offline) = Inr (Some photo)"
  by (simp add: captureImage_def io_defs offline_def)

lemma uri_photo: "uri photo = ''file:///tmp/x.jpg''"
  by (simp add: photo_def)

lemma run_pick_analyze:
  "fst (run [PressPick offline, PressAnalyze (online healthy analysed)]) =
     \<lparr> selectedImage = Some photo, isAnalyzing = False, analysisResult = verdict,
       apiAvailable = True \<rparr>"
proof -
  have p: "after initial_state (snd (handlePickImage offline)) =
      initial_state\<lparr>selectedImage := Some photo, analysisResult := JNull\<rparr>"
    by (simp add: after_handlePickImage pickImage_offline)
  have "after (initial_state\<lparr>selectedImage := Some photo, analysisResult := JNull\<rparr>)
      (snd (handleAnalyze (online healthy analysed)
         (initial_state\<lparr>selectedImage := Some photo, analysisResult := JNull\<rparr>))) =
     initial_state\<lparr>selectedImage := Some photo, analysisResult := JNull\<rparr>
       \<lparr>isAnalyzing := False, analysisResult := verdict, apiAvailable := True\<rparr>"
    by (rule after_handleAnalyze_success [where img = photo])
       (simp_all add: checkHealth_online uri_photo analyzeImage_analysed)
  then show ?thesis
    by (simp add: run_def step_def p)
qed

subsection \<open>A late result\<close>

lemma uri_portrait: "uri portrait = ''file:///tmp/y.jpg''"
  by (simp add: portrait_def)

lemma verdict_not_null: "verdict \<noteq> JNull"
  by (simp add: verdict_def)

lemma forged_not_verdict: "forged \<noteq> verdict"
  by (simp add: forged_def verdict_def)

lemma pick_photo: "handlePickImage offline =
    (Inr (), [Invoke PickImage, RequestMediaLibraryPermissions, LaunchImageLibrary,
              SetSelectedImage (Some photo), SetAnalysisResult JNull])"
  by (simp add: handlePickImage_def pickImage_def io_defs offline_def)

lemma pick_portrait: "handlePickImage second_pick =
    (Inr (), [Invoke PickImage, RequestMediaLibraryPermissions, LaunchImageLibrary,
              SetSelectedImage (Some portrait), SetAnalysisResult JNull])"
  by (simp add: handlePickImage_def pickImage_def io_defs offline_def second_pick_def)

lemma clear_photo:
  "selectedImage s = Some photo \<Longrightarrow>
   snd (handleClear offline s (Some ''Clear'')) =
     [AlertShown ''Clear Analysis'' ''Are you sure you want to clear the current analysis?'',
      Invoke (DeleteImage ''file:///tmp/x.jpg''), DeleteAsync ''file:///tmp/x.jpg'',
      SetSelectedImage None, SetAnalysisResult JNull]"
  by (simp add: handleClear_events deleteImage_def io_defs offline_def photo_def)

lemma health_two_files:
  "checkHealth two_files = (Inr True, [Invoke CheckHealth, Fetch (health_request two_files)])"
  by (simp add: checkHealth_def io_defs two_files_def offline_def healthy_def ok_def
      health_request_def)

lemma analyze_photo_two_files:
  "analyzeImage two_files ''file:///tmp/x.jpg'' =
     (Inr verdict,
      [Invoke (AnalyzeImage ''file:///tmp/x.jpg''),
       Invoke (ConvertToBase64 ''file:///tmp/x.jpg''),
       ReadAsString ''file:///tmp/x.jpg'', Fetch (analyze_request two_files ''QUJD'')])"
  by (simp add: analyzeImage_def convertToBase64_def io_defs two_files_def offline_def ok_def
      analyze_request_def)

lemma analyze_portrait_two_files:
  "fst (analyzeImage two_files ''file:///tmp/y.jpg'') = Inr forged"
  by (simp add: analyzeImage_def convertToBase64_def io_defs two_files_def offline_def ok_def
      analyze_request_def)

lemma analyze_photo_events:
  "selectedImage s = Some photo \<Longrightarrow>
   snd (handleAnalyze two_files s) =
     [SetIsAnalyzing True, SetAnalysisResult JNull, Invoke CheckHealth,
      Fetch (health_request two_files), SetApiAvailable True,
      Invoke (AnalyzeImage ''file:///tmp/x.jpg''),
      Invoke (ConvertToBase64 ''file:///tmp/x.jpg''),
      ReadAsString ''file:///tmp/x.jpg'', Fetch (analyze_request two_files ''QUJD''),
      SetAnalysisResult verdict, SetTimeout (DeleteImage ''file:///tmp/x.jpg'') 5000,
      SetIsAnalyzing False]"
  by (simp add: handleAnalyze_events health_two_files uri_photo analyze_photo_two_files)

lemma late_result_screen:
  "shown (interleaved late_result) =
     \<lparr> selectedImage = Some portrait, isAnalyzing = False, analysisResult = verdict,
       apiAvailable = True \<rparr>
   \<and> result_source (happened (interleaved late_result)) = Some ''file:///tmp/x.jpg''"
  by (simp add: interleaved_def late_result_def result_source_def after_def initial_state_def
      pick_photo pick_portrait clear_photo analyze_photo_events verdict_not_null)

section \<open>The properties of the specification\<close>

text \<open>
  C1. \<open>checkHealth()\<close> returns \<open>true\<close> exactly when the GET of the base URL followed by
  \<open>/api/health\<close> resolves, the response is ok, its body decodes, and the \<open>status\<close>
  property of the decoded body is the string \<open>healthy\<close>. In every other case it returns
  \<open>false\<close>; it never rejects.
\<close>

theorem checkHealth_true_iff:
  "(fst (checkHealth e) = Inr True \<longleftrightarrow>
      (\<exists>response data. fetch e (health_request e) = Inr response \<and> ok response \<and>
         json response = Inr data \<and>
         get_field data ''status'' = Inr (Some (JStr ''healthy''))))
   \<and> (fst (checkHealth e) = Inr True \<or> fst (checkHealth e) = Inr False)"
  by (auto simp: checkHealth_def io_defs split: sum.splits prod.splits if_splits)

text \<open>
  A healthy server gives \<open>true\<close>; a network failure, a status 500, a body that is not
  JSON, the body \<open>null\<close> and the body \<open>{status: "down"}\<close> give \<open>false\<close>.
\<close>

theorem checkHealth_witness:
  "fst (checkHealth (online healthy healthy)) = Inr True
   \<and> fst (checkHealth offline) = Inr False
   \<and> fst (checkHealth (online
        \<lparr> status = 500, json = Inr (JObj [(''status'', JStr ''healthy'')]) \<rparr> healthy))
       = Inr False
   \<and> fst (checkHealth (online \<lparr> status = 200, json = Inl not_json \<rparr> healthy)) = Inr False
   \<and> fst (checkHealth (online \<lparr> status = 200, json = Inr JNull \<rparr> healthy)) = Inr False
   \<and> fst (checkHealth (online
        \<lparr> status = 200, json = Inr (JObj [(''status'', JStr ''down'')]) \<rparr> healthy))
       = Inr False"
  using checkHealth_true_iff [of "online healthy healthy"]
    checkHealth_true_iff [of offline]
    checkHealth_true_iff [of "online
        \<lparr> status = 500, json = Inr (JObj [(''status'', JStr ''healthy'')]) \<rparr> healthy"]
    checkHealth_true_iff [of "online \<lparr> status = 200, json = Inl not_json \<rparr> healthy"]
    checkHealth_true_iff [of "online \<lparr> status = 200, json = Inr JNull \<rparr> healthy"]
    checkHealth_true_iff [of "online
        \<lparr> status = 200, json = Inr (JObj [(''status'', JStr ''down'')]) \<rparr> healthy"]
  by (auto simp add: online_def offline_def healthy_def health_request_def ok_def)

text \<open>
  C2. When the file of the image reads and the response to the analysis request is ok with
  a body that decodes, \<open>analyzeImage\<close> returns the decoded body as it is, whatever its
  fields are.
\<close>

theorem analyzeImage_returns_body:
  "readAsStringAsync e imageUri = Inr base64Image \<Longrightarrow>
   fetch e (analyze_request e base64Image) = Inr response \<Longrightarrow>
   ok response \<Longrightarrow> json response = Inr result \<Longrightarrow>
   fst (analyzeImage e imageUri) = Inr result"
  by (simp add: analyzeImage_def convertToBase64_def io_defs)

theorem analyzeImage_returns_body_witness:
  "readAsStringAsync (online healthy analysed) ''file:///tmp/x.jpg'' = Inr ''QUJD''
   \<and> fetch (online healthy analysed) (analyze_request (online healthy analysed) ''QUJD'')
       = Inr analysed
   \<and> ok analysed \<and> json analysed = Inr verdict
   \<and> fst (analyzeImage (online healthy analysed) ''file:///tmp/x.jpg'') = Inr verdict"
  using analyzeImage_returns_body [of "online healthy analysed"
     "''file:///tmp/x.jpg''" "''QUJD''" analysed verdict]
  by (simp add: online_def offline_def analyze_request_def ok_def analysed_def)

text \<open>
  C3, as the code has it. When the response to the analysis request is not ok and its
  decoded body has a \<open>detail\<close> property that is a non-empty string, \<open>analyzeImage\<close> fails
  with an error whose message is exactly that string.
\<close>

theorem analyzeImage_detail_message:
  "readAsStringAsync e imageUri = Inr base64Image \<Longrightarrow>
   fetch e (analyze_request e base64Image) = Inr response \<Longrightarrow>
   \<not> ok response \<Longrightarrow> json response = Inr errorData \<Longrightarrow>
   get_field errorData ''detail'' = Inr (Some (JStr detail)) \<Longrightarrow> detail \<noteq> [] \<Longrightarrow>
   fst (analyzeImage e imageUri) = Inl (JsError ''Error'' detail)"
  by (simp add: analyzeImage_def convertToBase64_def failure_message_def io_defs)

text \<open>A 422 response with the body \<open>{"detail": "bad image"}\<close> fails with \<open>bad image\<close>.\<close>

theorem analyzeImage_detail_message_witness:
  "readAsStringAsync (online healthy bad_image) ''file:///tmp/x.jpg'' = Inr ''QUJD''
   \<and> fetch (online healthy bad_image) (analyze_request (online healthy bad_image) ''QUJD'')
       = Inr bad_image
   \<and> \<not> ok bad_image
   \<and> json bad_image = Inr (JObj [(''detail'', JStr ''bad image'')])
   \<and> get_field (JObj [(''detail'', JStr ''bad image'')]) ''detail''
       = Inr (Some (JStr ''bad image''))
   \<and> fst (analyzeImage (online healthy bad_image) ''file:///tmp/x.jpg'')
       = Inl (JsError ''Error'' ''bad image'')"
  using analyzeImage_detail_message [of "online healthy bad_image"
     "''file:///tmp/x.jpg''" "''QUJD''" bad_image "JObj [(''detail'', JStr ''bad image'')]"
     "''bad image''"]
  by (simp add: online_def offline_def analyze_request_def ok_def bad_image_def)

text \<open>
  C3 as stated fails when the \<open>detail\<close> property is the empty string: \<open>||\<close> takes the
  generic message, so a 422 response with the body \<open>{"detail": ""}\<close> fails with the message
  \<open>Analysis failed: 422\<close>, which is not the detail.
\<close>

theorem analyzeImage_empty_detail_counterexample:
  "readAsStringAsync (online healthy empty_detail) ''file:///tmp/x.jpg'' = Inr ''QUJD''
   \<and> fetch (online healthy empty_detail)
        (analyze_request (online healthy empty_detail) ''QUJD'') = Inr empty_detail
   \<and> \<not> ok empty_detail
   \<and> json empty_detail = Inr (JObj [(''detail'', JStr [])])
   \<and> get_field (JObj [(''detail'', JStr [])]) ''detail'' = Inr (Some (JStr []))
   \<and> fst (analyzeImage (online healthy empty_detail) ''file:///tmp/x.jpg'')
       = Inl (JsError ''Error'' ''Analysis failed: 422'')
   \<and> message (JsError ''Error'' ''Analysis failed: 422'') \<noteq> []"
  by (simp add: analyzeImage_def convertToBase64_def failure_message_def io_defs
      online_def offline_def analyze_request_def ok_def empty_detail_def dec_nat_422)

text \<open>
  C4 at a 500 response whose body is the JSON text \<open>null\<close>: the body decodes and has no
  \<open>detail\<close>, yet reading \<open>errorData.detail\<close> throws, and \<open>analyzeImage\<close> fails with that
  TypeError, whose message does not mention the status 500.
\<close>

theorem analyzeImage_null_body:
  "readAsStringAsync (online healthy null_body) ''file:///tmp/x.jpg'' = Inr ''QUJD''
   \<and> fetch (online healthy null_body) (analyze_request (online healthy null_body) ''QUJD'')
       = Inr null_body
   \<and> \<not> ok null_body \<and> status null_body = 500 \<and> json null_body = Inr JNull
   \<and> fst (analyzeImage (online healthy null_body) ''file:///tmp/x.jpg'')
       = Inl (JsError ''TypeError'' (null_property_message ''detail''))
   \<and> \<not> sublist (dec_nat (status null_body)) (null_property_message ''detail'')"
  by (simp add: analyzeImage_def convertToBase64_def failure_message_def io_defs
      online_def offline_def analyze_request_def ok_def null_body_def dec_nat_500
      null_property_message_def sublist_code)

text \<open>
  C5. \<open>deleteImage(uri)\<close> always resolves, and it asks the platform to delete a file
  exactly when \<open>uri\<close> starts with \<open>file://\<close>; the file is then \<open>uri\<close>, asked once.
\<close>

theorem deleteImage_best_effort:
  "fst (deleteImage e u) = Inr ()
   \<and> deletions (snd (deleteImage e u)) = (if prefix ''file://'' u then [u] else [])"
  by (auto simp: deleteImage_def io_defs obs_defs split: sum.splits)

text \<open>
  \<open>file:///tmp/x.jpg\<close> is deleted, also where the deletion fails;
  \<open>https://example.com/x.jpg\<close> is not; all three calls resolve.
\<close>

theorem deleteImage_witness:
  "fst (deleteImage offline ''file:///tmp/x.jpg'') = Inr ()
   \<and> deletions (snd (deleteImage offline ''file:///tmp/x.jpg'')) = [''file:///tmp/x.jpg'']
   \<and> fst (deleteImage (offline\<lparr>deleteAsync := (\<lambda>u. Inl (JsError ''Error'' ''EACCES''))\<rparr>)
        ''file:///tmp/x.jpg'') = Inr ()
   \<and> deletions (snd (deleteImage
        (offline\<lparr>deleteAsync := (\<lambda>u. Inl (JsError ''Error'' ''EACCES''))\<rparr>)
        ''file:///tmp/x.jpg'')) = [''file:///tmp/x.jpg'']
   \<and> fst (deleteImage offline ''https://example.com/x.jpg'') = Inr ()
   \<and> deletions (snd (deleteImage offline ''https://example.com/x.jpg'')) = []"
  using deleteImage_best_effort [of offline "''file:///tmp/x.jpg''"]
    deleteImage_best_effort
      [of "offline\<lparr>deleteAsync := (\<lambda>u. Inl (JsError ''Error'' ''EACCES''))\<rparr>"
          "''file:///tmp/x.jpg''"]
    deleteImage_best_effort [of offline "''https://example.com/x.jpg''"]
  by simp

text \<open>
  C6. With an image selected, \<open>handleAnalyze\<close> resolves; the first service call it makes is
  \<open>checkHealth\<close>; when \<open>checkHealth\<close> returns \<open>false\<close> it shows the service-unavailable alert
  and makes no other service call; it sets a timer exactly when \<open>checkHealth\<close> returned
  \<open>true\<close> and \<open>analyzeImage\<close> succeeded, and that one timer calls \<open>deleteImage\<close> on the URI of
  the selected image after 5000 ms; on that path the timer is set after the call of
  \<open>analyzeImage\<close> and after its result is stored.
\<close>

theorem handleAnalyze_sequence:
  assumes "selectedImage s = Some img"
  shows "fst (handleAnalyze e s) = Inr ()
    \<and> (\<exists>rest. invocations (snd (handleAnalyze e s)) = CheckHealth # rest)
    \<and> (fst (checkHealth e) = Inr False \<longrightarrow>
         service_unavailable \<in> set (snd (handleAnalyze e s))
         \<and> invocations (snd (handleAnalyze e s)) = [CheckHealth])
    \<and> timeouts (snd (handleAnalyze e s)) =
         (if fst (checkHealth e) = Inr True \<and> \<not> isl (fst (analyzeImage e (uri img)))
          then [(DeleteImage (uri img), 5000)] else [])
    \<and> (\<forall>result.
         fst (checkHealth e) = Inr True \<and> fst (analyzeImage e (uri img)) = Inr result \<longrightarrow>
         snd (handleAnalyze e s) =
           [SetIsAnalyzing True, SetAnalysisResult JNull] @ snd (checkHealth e) @
           [SetApiAvailable True] @ snd (analyzeImage e (uri img)) @
           [SetAnalysisResult result, SetTimeout (DeleteImage (uri img)) 5000,
            SetIsAnalyzing False])"
proof -
  obtain t where t: "snd (analyzeImage e (uri img)) = Invoke (AnalyzeImage (uri img)) # t"
    "list_all quiet t"
    using analyzeImage_events by blast
  have h: "list_all quiet (snd (checkHealth e))"
    "invocations (snd (checkHealth e)) = [CheckHealth]"
    by (simp_all add: checkHealth_events)
  note ev = handleAnalyze_events [OF assms, of e]
  have 1: "fst (handleAnalyze e s) = Inr ()"
    by (rule handleAnalyze_returns)
  have 2: "\<exists>rest. invocations (snd (handleAnalyze e s)) = CheckHealth # rest"
    by (simp add: ev invocations_append invocations_Cons h)
  have 3: "fst (checkHealth e) = Inr False \<longrightarrow>
         service_unavailable \<in> set (snd (handleAnalyze e s))
         \<and> invocations (snd (handleAnalyze e s)) = [CheckHealth]"
    by (simp add: ev invocations_append invocations_Cons invocations_Nil h
        service_unavailable_def)
  have 4: "timeouts (snd (handleAnalyze e s)) =
         (if fst (checkHealth e) = Inr True \<and> \<not> isl (fst (analyzeImage e (uri img)))
          then [(DeleteImage (uri img), 5000)] else [])"
  proof -
    have q: "timeouts (snd (checkHealth e)) = []" "timeouts t = []"
      using h(1) t(2) by (simp_all add: timeouts_quiet)
    obtain b where b: "fst (checkHealth e) = Inr b"
      using checkHealth_returns by blast
    show ?thesis
      by (cases b; cases "fst (analyzeImage e (uri img))")
         (simp_all add: ev b t(1) q timeouts_append timeouts_Cons timeouts_Nil
            service_unavailable_def)
  qed
  have 5: "\<forall>result.
         fst (checkHealth e) = Inr True \<and> fst (analyzeImage e (uri img)) = Inr result \<longrightarrow>
         snd (handleAnalyze e s) =
           [SetIsAnalyzing True, SetAnalysisResult JNull] @ snd (checkHealth e) @
           [SetApiAvailable True] @ snd (analyzeImage e (uri img)) @
           [SetAnalysisResult result, SetTimeout (DeleteImage (uri img)) 5000,
            SetIsAnalyzing False]"
    by (simp add: ev)
  from 1 2 3 4 5 show ?thesis by blast
qed

text \<open>
  With \<open>photo\<close> selected: a healthy server that analyses the image gives the one timer; a
  failed health check gives the alert, no other service call and no timer; a healthy
  server that answers the analysis with 422 gives no timer.
\<close>

theorem handleAnalyze_sequence_witness:
  "selectedImage showing = Some photo
   \<and> timeouts (snd (handleAnalyze (online healthy analysed) showing)) =
       [(DeleteImage ''file:///tmp/x.jpg'', 5000)]
   \<and> invocations (snd (handleAnalyze offline showing)) = [CheckHealth]
   \<and> service_unavailable \<in> set (snd (handleAnalyze offline showing))
   \<and> timeouts (snd (handleAnalyze offline showing)) = []
   \<and> timeouts (snd (handleAnalyze (online healthy bad_image) showing)) = []"
proof -
  have s: "selectedImage showing = Some photo"
    by (simp add: showing_def)
  have a: "timeouts (snd (handleAnalyze (online healthy analysed) showing)) =
       [(DeleteImage ''file:///tmp/x.jpg'', 5000)]"
    using conjunct1 [OF conjunct2 [OF conjunct2 [OF conjunct2
      [OF handleAnalyze_sequence [OF s, of "online healthy analysed"]]]]]
    by (simp add: checkHealth_online uri_photo analyzeImage_analysed)
  have b: "invocations (snd (handleAnalyze offline showing)) = [CheckHealth]
      \<and> service_unavailable \<in> set (snd (handleAnalyze offline showing))"
    using conjunct1 [OF conjunct2 [OF conjunct2
      [OF handleAnalyze_sequence [OF s, of offline]]]]
    by (simp add: checkHealth_offline)
  have c: "timeouts (snd (handleAnalyze offline showing)) = []"
    using conjunct1 [OF conjunct2 [OF conjunct2 [OF conjunct2
      [OF handleAnalyze_sequence [OF s, of offline]]]]]
    by (simp add: checkHealth_offline)
  have d: "timeouts (snd (handleAnalyze (online healthy bad_image) showing)) = []"
    using conjunct1 [OF conjunct2 [OF conjunct2 [OF conjunct2
      [OF handleAnalyze_sequence [OF s, of "online healthy bad_image"]]]]]
    by (simp add: checkHealth_online uri_photo analyzeImage_bad_image)
  from s a b c d show ?thesis by simp
qed

text \<open>
  C7. When permission is granted and the user cancels the picker (the camera),
  \<open>pickImage\<close> (\<open>captureImage\<close>) returns \<open>null\<close>; and whenever it returns \<open>null\<close> the handler
  calls no setter, so the state, \<open>selectedImage\<close> and \<open>analysisResult\<close> included, is as
  before.
\<close>

theorem cancelled_selection_changes_nothing:
  "(requestMediaLibraryPermissionsAsync e = Inr ''granted'' \<and>
      launchImageLibraryAsync e = Inr r \<and> canceled r \<longrightarrow> fst (pickImage e) = Inr None)
   \<and> (fst (pickImage e) = Inr None \<longrightarrow>
        setter_calls (snd (handlePickImage e)) = [] \<and> after s (snd (handlePickImage e)) = s)
   \<and> (requestCameraPermissionsAsync e = Inr ''granted'' \<and>
      launchCameraAsync e = Inr r \<and> canceled r \<longrightarrow> fst (captureImage e) = Inr None)
   \<and> (fst (captureImage e) = Inr None \<longrightarrow>
        setter_calls (snd (handleCaptureImage e)) = []
        \<and> after s (snd (handleCaptureImage e)) = s)"
proof -
  have 1: "requestMediaLibraryPermissionsAsync e = Inr ''granted'' \<and>
      launchImageLibraryAsync e = Inr r \<and> canceled r \<longrightarrow> fst (pickImage e) = Inr None"
    by (simp add: pickImage_def io_defs)
  have 2: "requestCameraPermissionsAsync e = Inr ''granted'' \<and>
      launchCameraAsync e = Inr r \<and> canceled r \<longrightarrow> fst (captureImage e) = Inr None"
    by (simp add: captureImage_def io_defs)
  have 3: "fst (pickImage e) = Inr None \<longrightarrow>
        setter_calls (snd (handlePickImage e)) = [] \<and> after s (snd (handlePickImage e)) = s"
    by (simp add: handlePickImage_events setter_calls_append after_append
        setter_calls_quiet after_quiet pickImage_events after_Nil)
  have 4: "fst (captureImage e) = Inr None \<longrightarrow>
        setter_calls (snd (handleCaptureImage e)) = []
        \<and> after s (snd (handleCaptureImage e)) = s"
    by (simp add: handleCaptureImage_events setter_calls_append after_append
        setter_calls_quiet after_quiet captureImage_events after_Nil)
  from 1 2 3 4 show ?thesis by blast
qed

theorem cancelled_selection_witness:
  "requestMediaLibraryPermissionsAsync cancelled = Inr ''granted''
   \<and> launchImageLibraryAsync cancelled = Inr \<lparr> canceled = True, assets = None \<rparr>
   \<and> requestCameraPermissionsAsync cancelled = Inr ''granted''
   \<and> launchCameraAsync cancelled = Inr \<lparr> canceled = True, assets = None \<rparr>
   \<and> fst (pickImage cancelled) = Inr None
   \<and> after showing (snd (handlePickImage cancelled)) = showing
   \<and> fst (captureImage cancelled) = Inr None
   \<and> after showing (snd (handleCaptureImage cancelled)) = showing"
  using cancelled_selection_changes_nothing
    [where e = cancelled and r = "\<lparr> canceled = True, assets = None \<rparr>" and s = showing]
  by (simp add: cancelled_def offline_def)

text \<open>
  C8. Pressing Clear in the alert of \<open>handleClear\<close> while an image is selected sets
  \<open>selectedImage\<close> and \<open>analysisResult\<close> to \<open>null\<close> and calls \<open>deleteImage\<close> with the URI of
  that image; so it is after picking an image, analysing it and clearing: the image picked
  is still the selected one when Clear is pressed, both cells are \<open>null\<close> afterwards, and
  \<open>deleteImage\<close> was called with the URI of the image picked.
\<close>

theorem select_analyze_clear:
  "(selectedImage s = Some img \<longrightarrow>
      selectedImage (after s (snd (handleClear e s (Some ''Clear'')))) = None
      \<and> analysisResult (after s (snd (handleClear e s (Some ''Clear'')))) = JNull
      \<and> DeleteImage (uri img) \<in> set (invocations (snd (handleClear e s (Some ''Clear'')))))
   \<and> (fst (pickImage e1) = Inr (Some img) \<longrightarrow>
        selectedImage (fst (run [PressPick e1, PressAnalyze e2])) = Some img
        \<and> selectedImage
            (fst (run [PressPick e1, PressAnalyze e2, PressClear e3 (Some ''Clear'')])) = None
        \<and> analysisResult
            (fst (run [PressPick e1, PressAnalyze e2, PressClear e3 (Some ''Clear'')])) = JNull
        \<and> DeleteImage (uri img) \<in> set (invocations
             (snd (handleClear e3 (fst (run [PressPick e1, PressAnalyze e2]))
                (Some ''Clear'')))))"
proof -
  have clear: "selectedImage s' = Some img \<Longrightarrow>
      selectedImage (after s' (snd (handleClear e' s' (Some ''Clear'')))) = None
      \<and> analysisResult (after s' (snd (handleClear e' s' (Some ''Clear'')))) = JNull
      \<and> DeleteImage (uri img) \<in> set (invocations (snd (handleClear e' s' (Some ''Clear''))))"
    for s' e'
    using after_handleClear [of s' e']
    by (simp add: handleClear_events invocations_append invocations_Cons deleteImage_events)
  have seq: "fst (pickImage e1) = Inr (Some img) \<Longrightarrow>
      selectedImage (fst (run [PressPick e1, PressAnalyze e2])) = Some img"
    by (simp add: run_def step_def after_handlePickImage after_handleAnalyze_selected)
  have last: "fst (run [PressPick e1, PressAnalyze e2, PressClear e3 (Some ''Clear'')])
     = after (fst (run [PressPick e1, PressAnalyze e2]))
         (snd (handleClear e3 (fst (run [PressPick e1, PressAnalyze e2])) (Some ''Clear'')))"
    by (simp add: run_def step_def)
  show ?thesis
    using clear [of s e] clear [OF seq, of e3] seq last by simp
qed

theorem select_analyze_clear_witness:
  "fst (pickImage offline) = Inr (Some photo)
   \<and> selectedImage (fst (run [PressPick offline, PressAnalyze (online healthy analysed)]))
       = Some photo
   \<and> selectedImage (fst (run [PressPick offline, PressAnalyze (online healthy analysed),
        PressClear offline (Some ''Clear'')])) = None
   \<and> analysisResult (fst (run [PressPick offline, PressAnalyze (online healthy analysed),
        PressClear offline (Some ''Clear'')])) = JNull
   \<and> DeleteImage ''file:///tmp/x.jpg'' \<in> set (invocations (snd (handleClear offline
        (fst (run [PressPick offline, PressAnalyze (online healthy analysed)]))
        (Some ''Clear''))))"
  using select_analyze_clear [where s = showing and img = photo and e = offline
      and ?e1.0 = offline and ?e2.0 = "online healthy analysed" and ?e3.0 = offline]
  by (simp add: pickImage_offline uri_photo)

text \<open>
  C9. Every request \<open>analyzeImage\<close> sends has the body
  \<open>{image_base64: ..., mime_type: "image/jpeg"}\<close>; when the file reads it sends exactly one;
  and the events of \<open>handleAnalyze\<close> do not depend on the \<open>mimeType\<close> of the selected
  image.
\<close>

theorem analyzeImage_mime_type:
  "(\<forall>req \<in> set (requests (snd (analyzeImage e imageUri))).
      \<exists>base64Image. body req = Some (JSON_stringify
         (JObj [(''image_base64'', JStr base64Image), (''mime_type'', JStr ''image/jpeg'')])))
   \<and> (readAsStringAsync e imageUri = Inr b \<longrightarrow>
        requests (snd (analyzeImage e imageUri)) = [analyze_request e b])
   \<and> snd (handleAnalyze e (s\<lparr>selectedImage := Some (img\<lparr>mimeType := m\<rparr>)\<rparr>))
       = snd (handleAnalyze e (s\<lparr>selectedImage := Some img\<rparr>))"
proof -
  have 1: "\<forall>req \<in> set (requests (snd (analyzeImage e imageUri))).
      \<exists>base64Image. body req = Some (JSON_stringify
         (JObj [(''image_base64'', JStr base64Image), (''mime_type'', JStr ''image/jpeg'')]))"
    by (auto simp: analyzeImage_def convertToBase64_def io_defs requests_def
        analyze_request_def split: sum.splits prod.splits if_splits)
  have 2: "readAsStringAsync e imageUri = Inr b \<longrightarrow>
        requests (snd (analyzeImage e imageUri)) = [analyze_request e b]"
    by (auto simp: analyzeImage_def convertToBase64_def io_defs requests_def
        split: sum.splits prod.splits if_splits)
  have 3: "snd (handleAnalyze e (s\<lparr>selectedImage := Some (img\<lparr>mimeType := m\<rparr>)\<rparr>))
       = snd (handleAnalyze e (s\<lparr>selectedImage := Some img\<rparr>))"
    by (simp add: handleAnalyze_def cong: if_cong)
  from 1 2 3 show ?thesis by blast
qed

text \<open>The picker says \<open>photo\<close> is \<open>image/png\<close>; the request says \<open>image/jpeg\<close>.\<close>

theorem analyzeImage_mime_type_witness:
  "mimeType photo = Some ''image/png''
   \<and> readAsStringAsync (online healthy analysed) (uri photo) = Inr ''QUJD''
   \<and> requests (snd (analyzeImage (online healthy analysed) (uri photo))) =
       [analyze_request (online healthy analysed) ''QUJD'']
   \<and> body (analyze_request (online healthy analysed) ''QUJD'') =
       Some (JSON_stringify
         (JObj [(''image_base64'', JStr ''QUJD''), (''mime_type'', JStr ''image/jpeg'')]))"
  using analyzeImage_mime_type [where e = "online healthy analysed" and imageUri = "uri photo"
      and b = "''QUJD''" and s = showing and img = photo and m = None]
  by (simp add: online_def offline_def photo_def analyze_request_def)

text \<open>
  C10, as the code has it. When \<open>pickImage\<close> or \<open>captureImage\<close> returns an image, the
  setter calls of the handler are \<open>setSelectedImage(image)\<close> followed by
  \<open>setAnalysisResult(null)\<close>; \<open>handleAnalyze\<close> with an image selected calls
  \<open>setAnalysisResult(null)\<close> before it calls \<open>checkHealth\<close>, and any other value it stores
  is what \<open>analyzeImage\<close> returned for the URI of the selected image; and when the handlers
  run one at a time, each to its end, then after any sequence of user actions from the
  initial state a stored result other than \<open>null\<close> was stored during the analysis of the
  URI of the image selected now.
\<close>

theorem result_belongs_to_selected_image:
  "(fst (pickImage e) = Inr (Some img) \<longrightarrow>
      setter_calls (snd (handlePickImage e)) =
        [SetSelectedImage (Some img), SetAnalysisResult JNull])
   \<and> (fst (captureImage e) = Inr (Some img) \<longrightarrow>
      setter_calls (snd (handleCaptureImage e)) =
        [SetSelectedImage (Some img), SetAnalysisResult JNull])
   \<and> (selectedImage s = Some img \<longrightarrow>
        (\<exists>rest. snd (handleAnalyze e s) =
           SetIsAnalyzing True # SetAnalysisResult JNull # Invoke CheckHealth # rest)
        \<and> (\<forall>v. SetAnalysisResult v \<in> set (snd (handleAnalyze e s)) \<longrightarrow>
              v = JNull \<or> fst (analyzeImage e (uri img)) = Inr v))
   \<and> (analysisResult (fst (run acts)) \<noteq> JNull \<longrightarrow>
        (\<exists>shown. selectedImage (fst (run acts)) = Some shown
           \<and> result_source (snd (run acts)) = Some (uri shown)))"
proof -
  have 1: "fst (pickImage e) = Inr (Some img) \<longrightarrow>
      setter_calls (snd (handlePickImage e)) =
        [SetSelectedImage (Some img), SetAnalysisResult JNull]"
    by (simp add: handlePickImage_events setter_calls_append setter_calls_quiet
        pickImage_events) (simp add: setter_calls_def)
  have 2: "fst (captureImage e) = Inr (Some img) \<longrightarrow>
      setter_calls (snd (handleCaptureImage e)) =
        [SetSelectedImage (Some img), SetAnalysisResult JNull]"
    by (simp add: handleCaptureImage_events setter_calls_append setter_calls_quiet
        captureImage_events) (simp add: setter_calls_def)
  have 3: "selectedImage s = Some img \<longrightarrow>
        (\<exists>rest. snd (handleAnalyze e s) =
           SetIsAnalyzing True # SetAnalysisResult JNull # Invoke CheckHealth # rest)"
    using checkHealth_first [of e] by (auto simp: handleAnalyze_events)
  have 4: "selectedImage s = Some img \<longrightarrow>
        (\<forall>v. SetAnalysisResult v \<in> set (snd (handleAnalyze e s)) \<longrightarrow>
              v = JNull \<or> fst (analyzeImage e (uri img)) = Inr v)"
  proof (intro impI allI)
    fix v
    assume sel: "selectedImage s = Some img"
      and v: "SetAnalysisResult v \<in> set (snd (handleAnalyze e s))"
    obtain t where t: "snd (analyzeImage e (uri img)) = Invoke (AnalyzeImage (uri img)) # t"
      "list_all quiet t"
      using analyzeImage_events by blast
    obtain b where b: "fst (checkHealth e) = Inr b"
      using checkHealth_returns by blast
    have q: "SetAnalysisResult v \<notin> set (snd (checkHealth e))" "SetAnalysisResult v \<notin> set t"
      using checkHealth_events(2) [of e] t(2) by (simp_all add: quiet_not_result)
    show "v = JNull \<or> fst (analyzeImage e (uri img)) = Inr v"
      using v q
      by (cases b; cases "fst (analyzeImage e (uri img))")
         (auto simp: handleAnalyze_events [OF sel] b t(1) service_unavailable_def)
  qed
  have 5: "analysisResult (fst (run acts)) \<noteq> JNull \<longrightarrow>
        (\<exists>shown. selectedImage (fst (run acts)) = Some shown
           \<and> result_source (snd (run acts)) = Some (uri shown))"
    using linked_run [of acts]
    by (auto simp: linked_def result_source_def split: if_splits option.splits)
  from 1 2 3 4 5 show ?thesis by blast
qed

text \<open>
  Picking \<open>photo\<close> and analysing it on a healthy server stores the verdict the server
  gave for \<open>photo\<close>, and \<open>photo\<close> is the image selected.
\<close>

theorem result_belongs_to_selected_image_witness:
  "fst (pickImage offline) = Inr (Some photo)
   \<and> fst (captureImage offline) = Inr (Some photo)
   \<and> setter_calls (snd (handlePickImage offline)) =
       [SetSelectedImage (Some photo), SetAnalysisResult JNull]
   \<and> setter_calls (snd (handleCaptureImage offline)) =
       [SetSelectedImage (Some photo), SetAnalysisResult JNull]
   \<and> selectedImage showing = Some photo
   \<and> fst (analyzeImage (online healthy analysed) (uri photo)) = Inr verdict
   \<and> analysisResult (fst (run [PressPick offline, PressAnalyze (online healthy analysed)]))
       = verdict
   \<and> verdict \<noteq> JNull
   \<and> selectedImage (fst (run [PressPick offline, PressAnalyze (online healthy analysed)]))
       = Some photo
   \<and> result_source (snd (run [PressPick offline, PressAnalyze (online healthy analysed)]))
       = Some (uri photo)"
  using result_belongs_to_selected_image [where e = offline and img = photo and s = showing
      and acts = "[PressPick offline, PressAnalyze (online healthy analysed)]"]
  by (simp add: pickImage_offline captureImage_offline run_pick_analyze verdict_def
      uri_photo analyzeImage_analysed showing_def)

text \<open>
  C10 as stated fails when handlers interleave: nothing cancels an analysis in flight, and
  the buttons of the Clear alert and the two selection buttons are not gated by
  \<open>isAnalyzing\<close>. In \<open>late_result\<close> every button is pressed while the screen offers it, and
  the run ends with \<open>portrait\<close> selected, no analysis in flight, and the verdict of
  \<open>photo\<close> stored, which is not what analysing \<open>portrait\<close> gives.
\<close>

theorem stale_result_counterexample:
  "selectedImage (shown (interleaved late_result)) = Some portrait
   \<and> isAnalyzing (shown (interleaved late_result)) = False
   \<and> analysisResult (shown (interleaved late_result)) = verdict
   \<and> verdict \<noteq> JNull
   \<and> fst (analyzeImage two_files (uri photo)) = Inr verdict
   \<and> fst (analyzeImage two_files (uri portrait)) = Inr forged
   \<and> forged \<noteq> verdict
   \<and> result_source (happened (interleaved late_result)) = Some (uri photo)
   \<and> uri photo \<noteq> uri portrait"
  by (simp add: late_result_screen verdict_not_null uri_photo uri_portrait
      analyze_photo_two_files analyze_portrait_two_files forged_not_verdict)

end
